theory Spec2Isabelle
  imports Main "HOL-Library.AList"
begin

section \<open>Values, elements and effects\<close>

text \<open>
  The two page components \<open>DocumentsSearch\<close> and \<open>EItemsSearch\<close> are React class
  components.  Their methods build element trees and install callbacks.  An element
  \<open><Tag p=v ...>children</Tag>\<close> is \<open>Element ''Tag'' [(''p'', v), ...] children\<close>, a text
  child is \<open>Text\<close>, an interpolated child \<open>{e}\<close> is \<open>Expr\<close> (or \<open>Nodes\<close> when \<open>e\<close> is an
  array of elements), and \<open>null\<close> is \<open>Null\<close>.  A bare attribute (\<open><Header icon>\<close>) is the
  value \<open>true\<close>.

  The type variable \<open>'v\<close> stands for the values that the collaborators (search client,
  toolkit widgets) hand to this code and that this code only passes on: error objects,
  event objects, callbacks of the search client, fields of a search hit that are not read.
\<close>

text \<open>The primitive values kept in the component state.\<close>

datatype jsval = JUndefined | JBool bool | JNum int

text \<open>
  The component state \<open>this.state\<close> is an object: an association list from field names
  to values.  Reading a missing field gives \<open>undefined\<close>.
\<close>

type_synonym state = "(string \<times> jsval) list"

text \<open>Calls into the collaborators, in the order in which a callback makes them.\<close>

datatype 'v effect =
    GoTo string
  | OpenRecordEditor string
  | Call 'v

text \<open>A search hit as far as this code reads it: \<open>book.metadata.pid\<close>.\<close>

record metadata =
  pid :: string

record 'm hit =
  metadata :: "'m metadata_scheme"

text \<open>A table row of the eitems result list: \<open>row.ID\<close>.\<close>

record row =
  ID :: string

text \<open>\<open>titleProps\<close> and \<open>customProps\<close>: objects with an \<open>index\<close> field.\<close>

record index_props =
  index :: int

text \<open>The search configuration returned by \<open>getSearchConfig\<close>: \<open>AGGREGATIONS\<close> is read.\<close>

record agg =
  title :: string
  field :: string

record search_config =
  AGGREGATIONS :: "agg list"

datatype 'v node =
    Null
  | Text string
  | Expr "'v val"
  | Nodes "'v node list"
  | Element string "(string \<times> 'v val) list" "'v node list"
and 'v val =
    VUndefined
  | VBool bool
  | VNum int
  | VStr string
  | VOpaque 'v
  | VComponent string
  | VObj "(string \<times> 'v val) list"
  | VNew string "'v val list"
  | VHit "('v, 'v) hit_scheme"
  | VMetadata "'v metadata_scheme"
  | VSearchConfig "'v search_config_scheme"
  | VStateHandler "state \<Rightarrow> state"
  | VTitleHandler "state \<Rightarrow> 'v \<Rightarrow> 'v index_props_scheme \<Rightarrow> state"
  | VPidHandler "string \<Rightarrow> 'v effect list"
  | VRowHandler "'v row_scheme \<Rightarrow> 'v effect list"
  | VThunk "unit \<Rightarrow> 'v effect list"
  | VRenderSearchBar "'v \<Rightarrow> string \<Rightarrow> 'v \<Rightarrow> 'v \<Rightarrow> 'v node"
  | VRenderHits "('v, 'v) hit_scheme list \<Rightarrow> 'v node"
  | VRenderResults "'v \<Rightarrow> 'v node"
  | VRenderEmpty "string \<Rightarrow> 'v \<Rightarrow> 'v node"
  | VRenderError "'v \<Rightarrow> 'v node"
  | VRenderCount "int \<Rightarrow> 'v node"
  | VRenderAggregations
      "state \<Rightarrow> string \<Rightarrow> 'v option \<Rightarrow> 'v \<Rightarrow> index_props \<Rightarrow> 'v node"

type_synonym 'v props = "(string \<times> 'v val) list"

subsection \<open>JavaScript operators on the state\<close>

text \<open>\<open>this.state.f\<close>\<close>

definition this_state :: "state \<Rightarrow> string \<Rightarrow> jsval" where
  "this_state s f = (case map_of s f of None \<Rightarrow> JUndefined | Some v \<Rightarrow> v)"

text \<open>Truthiness, as the conditional operator and \<open>!\<close> test it.\<close>

fun truthy :: "jsval \<Rightarrow> bool" where
  "truthy JUndefined = False"
| "truthy (JBool b) = b"
| "truthy (JNum n) = (n \<noteq> 0)"

definition js_not :: "jsval \<Rightarrow> jsval" where
  "js_not v = JBool (\<not> truthy v)"

text \<open>
  \<open>this.setState(patch)\<close> merges the fields of \<open>patch\<close> into the state: a field that
  exists is overwritten in place, a new field is appended.
\<close>

definition setState :: "state \<Rightarrow> state \<Rightarrow> state" where
  "setState s patch = fold (\<lambda>(k, v). AList.update k v) patch s"

text \<open>A state value used as an attribute value.\<close>

fun val_of :: "jsval \<Rightarrow> 'v val" where
  "val_of JUndefined = VUndefined"
| "val_of (JBool b) = VBool b"
| "val_of (JNum n) = VNum n"

subsection \<open>The imported collaborators\<close>

text \<open>
  The route builders, the API descriptors, \<open>getSearchConfig\<close>, \<open>apiConfig\<close> and the
  \<open>Responsive\<close> break points are imported from other modules.  Each component takes its
  imports as a record.  \<open>goTo\<close> and \<open>openRecordEditor\<close> are recorded as effects.
\<close>

record front_site_routes =
  documentDetailsFor :: "string \<Rightarrow> string"
  documentRequestForm :: string

record back_office_routes =
  eitemDetailsFor :: "string \<Rightarrow> string"

record document_api =
  searchBaseURL :: string

record eitem_api =
  url :: string

record 'v responsive =
  onlyMobile :: "'v props"
  onlyComputer :: "'v props"

record 'v documents_imports =
  FrontSiteRoutes :: front_site_routes
  documentApi :: document_api
  getSearchConfig :: "string \<Rightarrow> 'v search_config_scheme"
  Responsive :: "'v responsive"

record 'v eitems_imports =
  BackOfficeRoutes :: back_office_routes
  eitemApi :: eitem_api
  eitems_getSearchConfig :: "string \<Rightarrow> 'v search_config_scheme"
  apiConfig :: "'v props"

definition goTo :: "string \<Rightarrow> 'v effect list" where
  "goTo path = [GoTo path]"

definition openRecordEditor :: "string \<Rightarrow> 'v effect list" where
  "openRecordEditor u = [OpenRecordEditor u]"

text \<open>The component's \<open>props\<close>: \<open>this.props.location.search\<close> is read.\<close>

record location =
  search :: string

record component_props =
  location :: location

section \<open>DocumentsSearch\<close>

definition DocumentsSearch_searchApi :: "'v documents_imports \<Rightarrow> 'v val" where
  "DocumentsSearch_searchApi env =
     VNew ''InvenioSearchApi''
       [VObj [(''url'', VStr (searchBaseURL (documentApi env))),
              (''withCredentials'', VBool True)]]"

definition DocumentsSearch_state :: state where
  "DocumentsSearch_state = [(''activeIndex'', JNum 0), (''isLayoutGrid'', JBool True)]"

definition DocumentsSearch_searchConfig ::
  "'v documents_imports \<Rightarrow> 'v search_config_scheme" where
  "DocumentsSearch_searchConfig env = getSearchConfig env ''documents''"

definition toggleAccordion :: "state \<Rightarrow> 'e \<Rightarrow> 'm index_props_scheme \<Rightarrow> state" where
  "toggleAccordion s e titleProps =
     (let idx = index titleProps;
          activeIndex = this_state s ''activeIndex'';
          newIndex = (if activeIndex = JNum idx then - 1 else idx)
      in setState s [(''activeIndex'', JNum newIndex)])"

definition renderAccordionAggregations ::
  "state \<Rightarrow> string \<Rightarrow> 'v option \<Rightarrow> 'v \<Rightarrow> 'm index_props_scheme \<Rightarrow> 'v node" where
  "renderAccordionAggregations s ttl resultsAggregations aggregations customProps =
     (let activeIndex = this_state s ''activeIndex'' in
      if resultsAggregations \<noteq> None then
        Element ''Accordion'' [(''as'', VComponent ''Menu''), (''vertical'', VBool True)]
          [Element ''Menu.Item'' []
            [Element ''Accordion.Title''
               [(''content'', VStr ttl),
                (''index'', VNum (index customProps)),
                (''active'', VBool (activeIndex = JNum (index customProps))),
                (''onClick'', VTitleHandler toggleAccordion)] [],
             Element ''Accordion.Content''
               [(''active'', VBool (activeIndex = JNum (index customProps))),
                (''content'', VOpaque aggregations)] []]]
      else Null)"

definition DocumentsSearch_renderSearchBar :: "'v \<Rightarrow> string \<Rightarrow> 'v \<Rightarrow> 'v \<Rightarrow> 'v node" where
  "DocumentsSearch_renderSearchBar u queryString onInputChange executeSearch =
     Element ''DocumentsSearchBar''
       [(''currentQueryString'', VStr queryString),
        (''onInputChange'', VOpaque onInputChange),
        (''executeSearch'', VOpaque executeSearch),
        (''placeholder'', VStr ''Search for records...'')] []"

definition toggleLayout :: "state \<Rightarrow> state" where
  "toggleLayout s = setState s [(''isLayoutGrid'', js_not (this_state s ''isLayoutGrid''))]"

definition renderResultsLayoutOptions :: "state \<Rightarrow> 'v node" where
  "renderResultsLayoutOptions s =
     Element ''Button.Group'' [(''basic'', VBool True), (''icon'', VBool True)]
       [Element ''Button''
          [(''disabled'', val_of (this_state s ''isLayoutGrid'')),
           (''onClick'', VStateHandler toggleLayout)]
          [Element ''Icon'' [(''name'', VStr ''grid layout'')] []],
        Element ''Button''
          [(''disabled'', val_of (js_not (this_state s ''isLayoutGrid''))),
           (''onClick'', VStateHandler toggleLayout)]
          [Element ''Icon'' [(''name'', VStr ''list layout'')] []]]"

definition renderResultsGrid :: "('v, 'v) hit_scheme list \<Rightarrow> 'v node" where
  "renderResultsGrid results =
     (let cards = map (\<lambda>book.
            Element ''BookCard''
              [(''key'', VStr (pid (metadata book))), (''data'', VHit book)] []) results
      in Element ''Card.Group''
           [(''doubling'', VBool True), (''stackable'', VBool True), (''itemsPerRow'', VNum 4)]
           [Nodes cards])"

definition DocumentsSearch_renderResultsList ::
  "'v documents_imports \<Rightarrow> ('v, 'v) hit_scheme list \<Rightarrow> 'v node" where
  "DocumentsSearch_renderResultsList env results =
     (if length results \<noteq> 0 then
        Element ''div'' []
          [Nodes (map (\<lambda>book.
             Element ''DocumentItem''
               [(''key'', VStr (pid (metadata book))),
                (''data-test'', VStr (pid (metadata book))),
                (''metadata'', VMetadata (metadata book)),
                (''rowActionClickHandler'',
                   VPidHandler (\<lambda>p. goTo (documentDetailsFor (FrontSiteRoutes env) p)))] [])
             results)]
      else Null)"

definition DocumentsSearch_renderEmptyResults :: "string \<Rightarrow> 'v \<Rightarrow> 'v node" where
  \<open>DocumentsSearch_renderEmptyResults queryString resetQuery =
     Element ''Segment'' [(''placeholder'', VBool True), (''textAlign'', VStr ''center'')]
       [Element ''Header'' [(''icon'', VBool True)]
          [Element ''Icon'' [(''name'', VStr ''search'')] [],
           Text ''No records found!''],
        Element ''div'' [(''className'', VStr ''empty-results-current'')]
          [Text ''Current search "'', Expr (VStr queryString), Text ''"'']]\<close>

definition DocumentsSearch_renderError :: "'v \<Rightarrow> 'v node" where
  "DocumentsSearch_renderError error = Element ''IlsError'' [(''error'', VOpaque error)] []"

definition DocumentsSearch_renderCount :: "int \<Rightarrow> 'v node" where
  "DocumentsSearch_renderCount totalResults =
     Element ''div'' [] [Expr (VNum totalResults), Text '' results'']"

definition renderAggregations :: "'v documents_imports \<Rightarrow> 'v node" where
  "renderAggregations env =
     (let accordionPanels = map (\<lambda>(idx, a).
            Element ''div'' [(''className'', VStr ''aggregator''), (''key'', VStr (field a))]
              [Element ''Aggregator''
                 [(''title'', VStr (title a)),
                  (''field'', VStr (field a)),
                  (''customProps'', VObj [(''index'', VNum (int idx))]),
                  (''renderElement'', VRenderAggregations renderAccordionAggregations)] []])
            (enumerate 0 (AGGREGATIONS (DocumentsSearch_searchConfig env)));
          cardPanels = map (\<lambda>a.
            Element ''div'' [(''className'', VStr ''aggregator''), (''key'', VStr (field a))]
              [Element ''Aggregator''
                 [(''title'', VStr (title a)), (''field'', VStr (field a))] []])
            (AGGREGATIONS (DocumentsSearch_searchConfig env))
      in Element ''div'' []
           [Element ''Responsive'' (onlyMobile (Responsive env)) [Nodes accordionPanels],
            Element ''Responsive'' (onlyComputer (Responsive env)) [Nodes cardPanels]])"

definition DocumentsSearch_renderHeader :: "'v documents_imports \<Rightarrow> state \<Rightarrow> 'v node" where
  "DocumentsSearch_renderHeader env s =
     Element ''Grid''
       [(''columns'', VNum 3), (''verticalAlign'', VStr ''middle''),
        (''stackable'', VBool True), (''relaxed'', VBool True)]
       [Element ''Grid.Column'' [(''width'', VNum 2)] [renderResultsLayoutOptions s],
        Element ''Grid.Column'' [(''width'', VNum 3), (''textAlign'', VStr ''left'')]
          [Element ''Count'' [(''renderElement'', VRenderCount DocumentsSearch_renderCount)] []],
        Element ''Grid.Column'' [(''width'', VNum 6)] [Element ''Pagination'' [] []],
        Element ''Grid.Column'' [(''width'', VNum 5), (''textAlign'', VStr ''right'')]
          [Element ''ResultsSort''
             [(''searchConfig'', VSearchConfig (DocumentsSearch_searchConfig env))] []]]"

definition DocumentsSearch_renderFooter :: "'v node" where
  "DocumentsSearch_renderFooter =
     Element ''Grid''
       [(''columns'', VNum 3), (''verticalAlign'', VStr ''middle''),
        (''stackable'', VBool True), (''relaxed'', VBool True)]
       [Element ''Grid.Column'' [(''width'', VNum 5)] [],
        Element ''Grid.Column'' [(''width'', VNum 6)] [Element ''Pagination'' [] []],
        Element ''Grid.Column'' [(''width'', VNum 5)] []]"

definition DocumentsSearch_render ::
  "'v documents_imports \<Rightarrow> component_props \<Rightarrow> state \<Rightarrow> 'v node" where
  "DocumentsSearch_render env props s =
     (let queryString = search (location props);
          requestForm =
            Element ''Link''
              [(''to'', VObj [(''pathname'', VStr (documentRequestForm (FrontSiteRoutes env))),
                              (''state'', VObj [(''queryString'', VStr queryString)])])]
              [Text ''book request form'']
      in Element ''ReactSearchKit'' [(''searchApi'', DocumentsSearch_searchApi env)]
           [Element ''Container'' [(''className'', VStr ''documents-search-searchbar'')]
              [Element ''SearchBar''
                 [(''renderElement'', VRenderSearchBar DocumentsSearch_renderSearchBar)] []],
            Element ''Grid''
              [(''columns'', VNum 2), (''stackable'', VBool True), (''relaxed'', VBool True),
               (''className'', VStr ''documents-search-container'')]
              [Element ''Grid.Column'' [(''width'', VNum 3)] [renderAggregations env],
               Element ''Grid.Column'' [(''width'', VNum 13)]
                 [Element ''ResultsLoader'' []
                    [Element ''EmptyResults''
                       [(''renderElement'', VRenderEmpty DocumentsSearch_renderEmptyResults)] [],
                     Element ''Error''
                       [(''renderElement'', VRenderError DocumentsSearch_renderError)] [],
                     DocumentsSearch_renderHeader env s,
                     (if truthy (this_state s ''isLayoutGrid'') then
                        Element ''ResultsGrid''
                          [(''renderElement'', VRenderHits renderResultsGrid)] []
                      else
                        Element ''ResultsList''
                          [(''renderElement'',
                              VRenderHits (DocumentsSearch_renderResultsList env))] []),
                     DocumentsSearch_renderFooter,
                     Element ''Message'' [(''icon'', VBool True), (''color'', VStr ''yellow'')]
                       [Element ''Icon'' [(''name'', VStr ''info circle'')] [],
                        Element ''Message.Content'' []
                          [Element ''Message.Header'' []
                             [Text ''Couldn't find the book you were looking for?''],
                           Text ''Please fill in the '',
                           requestForm,
                           Text '' to request a new book from the library.'']]]]]])"

section \<open>EItemsSearch\<close>

text \<open>
  The class declares no \<open>state\<close> field and never calls \<open>setState\<close>: its methods
  take no state and return none.
\<close>

definition EItemsSearch_searchConfig :: "'v eitems_imports \<Rightarrow> 'v search_config_scheme" where
  "EItemsSearch_searchConfig env = eitems_getSearchConfig env ''eitems''"

definition EItemsSearch_renderSearchBar :: "'v \<Rightarrow> string \<Rightarrow> 'v \<Rightarrow> 'v \<Rightarrow> 'v node" where
  "EItemsSearch_renderSearchBar u queryString onInputChange executeSearch =
     Element ''EItemsSearchBar''
       [(''currentQueryString'', VStr queryString),
        (''onInputChange'', VOpaque onInputChange),
        (''executeSearch'', VOpaque executeSearch),
        (''placeholder'', VStr ''Search for eitems'')] []"

definition EItemsSearch_renderResultsList :: "'v eitems_imports \<Rightarrow> 'v \<Rightarrow> 'v node" where
  "EItemsSearch_renderResultsList env results =
     Element ''div'' [(''className'', VStr ''results-list'')]
       [Element ''EItemsResultsList''
          [(''results'', VOpaque results),
           (''viewDetailsClickHandler'',
              VRowHandler (\<lambda>r. goTo (eitemDetailsFor (BackOfficeRoutes env) (ID r))))] []]"

definition EItemsSearch_renderEmptyResults ::
  "'v eitems_imports \<Rightarrow> string \<Rightarrow> 'v \<Rightarrow> 'v node" where
  \<open>EItemsSearch_renderEmptyResults env queryString resetQuery =
     Element ''Segment'' [(''placeholder'', VBool True), (''textAlign'', VStr ''center'')]
       [Element ''Header'' [(''icon'', VBool True)]
          [Element ''Icon'' [(''name'', VStr ''search'')] [],
           Text ''No eitems found!''],
        Element ''div'' [(''className'', VStr ''empty-results-current'')]
          [Text ''Current search "'', Expr (VStr queryString), Text ''"''],
        Element ''Segment.Inline'' []
          [Element ''ClearButton'' [(''clickHandler'', VThunk (\<lambda>_. [Call resetQuery]))] [],
           Element ''NewButton''
             [(''text'', VStr ''New eitem''),
              (''clickHandler'', VThunk (\<lambda>_. openRecordEditor (url (eitemApi env))))] []]]\<close>

definition EItemsSearch_renderError :: "'v \<Rightarrow> 'v node" where
  "EItemsSearch_renderError error = Element ''IlsError'' [(''error'', VOpaque error)] []"

definition EItemsSearch_renderCount :: "int \<Rightarrow> 'v node" where
  "EItemsSearch_renderCount totalResults =
     Element ''div'' [] [Expr (VNum totalResults), Text '' results'']"

definition EItemsSearch_renderHeader :: "'v eitems_imports \<Rightarrow> 'v node" where
  "EItemsSearch_renderHeader env =
     Element ''Grid''
       [(''columns'', VNum 3), (''verticalAlign'', VStr ''middle''),
        (''stackable'', VBool True), (''relaxed'', VBool True)]
       [Element ''Grid.Column'' [(''width'', VNum 5), (''textAlign'', VStr ''left'')]
          [Element ''Count'' [(''renderElement'', VRenderCount EItemsSearch_renderCount)] []],
        Element ''Grid.Column'' [(''width'', VNum 6)] [Element ''Pagination'' [] []],
        Element ''Grid.Column'' [(''width'', VNum 5), (''textAlign'', VStr ''right'')]
          [Element ''ResultsSort''
             [(''searchConfig'', VSearchConfig (EItemsSearch_searchConfig env))] []]]"

definition EItemsSearch_renderFooter :: "'v node" where
  "EItemsSearch_renderFooter =
     Element ''Grid''
       [(''columns'', VNum 3), (''verticalAlign'', VStr ''middle''),
        (''stackable'', VBool True), (''relaxed'', VBool True)]
       [Element ''Grid.Column'' [(''width'', VNum 5)] [],
        Element ''Grid.Column'' [(''width'', VNum 6)] [Element ''Pagination'' [] []],
        Element ''Grid.Column'' [(''width'', VNum 5)] []]"

text \<open>
  \<open>{...apiConfig, url: eitemApi.url}\<close>: the fields of \<open>apiConfig\<close> in their order, with
  \<open>url\<close> overwritten in place or appended.
\<close>

definition EItemsSearch_render :: "'v eitems_imports \<Rightarrow> 'v node" where
  "EItemsSearch_render env =
     Element ''ReactSearchKit''
       [(''searchConfig'',
           VObj (AList.update ''url'' (VStr (url (eitemApi env))) (apiConfig env)))]
       [Element ''Container'' [(''className'', VStr ''eitems-search-searchbar'')]
          [Element ''SearchBar''
             [(''renderElement'', VRenderSearchBar EItemsSearch_renderSearchBar)] []],
        Element ''Grid''
          [(''columns'', VNum 2), (''stackable'', VBool True), (''relaxed'', VBool True),
           (''className'', VStr ''eitems-search-container'')]
          [Element ''Grid.Column'' [(''width'', VNum 16)]
             [Element ''ResultsLoader'' []
                [Element ''EmptyResults''
                   [(''renderElement'', VRenderEmpty (EItemsSearch_renderEmptyResults env))] [],
                 Element ''Error''
                   [(''renderElement'', VRenderError EItemsSearch_renderError)] [],
                 EItemsSearch_renderHeader env,
                 Element ''ResultsList''
                   [(''renderElement'', VRenderResults (EItemsSearch_renderResultsList env))] [],
                 EItemsSearch_renderFooter]]]]"

section \<open>Reading an element tree\<close>

text \<open>All nodes of a tree, the root first, in document order.\<close>

fun subnodes :: "'v node \<Rightarrow> 'v node list" where
  "subnodes (Element t ps cs) = Element t ps cs # concat (map subnodes cs)"
| "subnodes (Nodes ns) = Nodes ns # concat (map subnodes ns)"
| "subnodes n = [n]"

fun tag_of :: "'v node \<Rightarrow> string option" where
  "tag_of (Element t ps cs) = Some t"
| "tag_of n = None"

fun props_of :: "'v node \<Rightarrow> 'v props" where
  "props_of (Element t ps cs) = ps"
| "props_of n = []"

text \<open>The elements of a tree with a given tag.\<close>

definition elements :: "string \<Rightarrow> 'v node \<Rightarrow> 'v node list" where
  "elements t n = filter (\<lambda>m. tag_of m = Some t) (subnodes n)"

text \<open>The attribute \<open>p\<close> of an element; \<open>undefined\<close> when it is not given.\<close>

definition get_prop :: "'v node \<Rightarrow> string \<Rightarrow> 'v val" where
  "get_prop n p = (case map_of (props_of n) p of None \<Rightarrow> VUndefined | Some v \<Rightarrow> v)"

text \<open>Every attribute value of every element of a tree.\<close>

definition all_props :: "'v node \<Rightarrow> 'v val list" where
  "all_props n = concat (map (\<lambda>m. map snd (props_of m)) (subnodes n))"

text \<open>The callbacks that write the component state.\<close>

fun writes_state :: "'v val \<Rightarrow> bool" where
  "writes_state (VStateHandler h) = True"
| "writes_state (VTitleHandler h) = True"
| "writes_state v = False"

text \<open>The event handlers of any kind.\<close>

fun is_handler :: "'v val \<Rightarrow> bool" where
  "is_handler (VStateHandler h) = True"
| "is_handler (VTitleHandler h) = True"
| "is_handler (VPidHandler h) = True"
| "is_handler (VRowHandler h) = True"
| "is_handler (VThunk h) = True"
| "is_handler v = False"

text \<open>The states the component can be in: the initial one and those the two toggles lead to.\<close>

inductive reachable :: "state \<Rightarrow> bool" where
  init: "reachable DocumentsSearch_state"
| layout: "reachable s \<Longrightarrow> reachable (toggleLayout s)"
| accordion: "reachable s \<Longrightarrow> reachable (toggleAccordion s (e :: unit) (titleProps :: index_props))"

text \<open>
  An attribute value used as a condition.  Objects, functions and component references are
  truthy; an opaque value is taken as truthy too (no button of these pages is given one).
\<close>

fun val_truthy :: "'v val \<Rightarrow> bool" where
  "val_truthy VUndefined = False"
| "val_truthy (VBool b) = b"
| "val_truthy (VNum n) = (n \<noteq> 0)"
| "val_truthy (VStr x) = (x \<noteq> [])"
| "val_truthy v = True"

text \<open>Invoking a callback found in a tree; \<open>None\<close> when the value is no such callback.\<close>

fun run_handler :: "'v val \<Rightarrow> state \<Rightarrow> state option" where
  "run_handler (VStateHandler h) s = Some (h s)"
| "run_handler v s = None"

text \<open>
  A click on a button while the component is in state \<open>s\<close>.  The toolkit's \<open>Button\<close> does
  not call \<open>onClick\<close> when its \<open>disabled\<close> attribute is truthy; otherwise it calls it, and
  the handler runs on the state the component has at that moment.  The result is the new
  state, or \<open>None\<close> when the click reaches no handler.
\<close>

definition click :: "'v node \<Rightarrow> state \<Rightarrow> state option" where
  "click b s =
     (if val_truthy (get_prop b ''disabled'') then None
      else run_handler (get_prop b ''onClick'') s)"

text \<open>A click on each button of a tree, in document order.\<close>

definition clicks :: "'v node \<Rightarrow> state \<Rightarrow> state option list" where
  "clicks n s = map (\<lambda>b. click b s) (elements ''Button'' n)"

fun call_pid :: "'v val \<Rightarrow> string \<Rightarrow> 'v effect list option" where
  "call_pid (VPidHandler h) p = Some (h p)"
| "call_pid v p = None"

fun call_row :: "'v val \<Rightarrow> 'v row_scheme \<Rightarrow> 'v effect list option" where
  "call_row (VRowHandler h) r = Some (h r)"
| "call_row v r = None"

fun call_thunk :: "'v val \<Rightarrow> 'v effect list option" where
  "call_thunk (VThunk h) = Some (h ())"
| "call_thunk v = None"

text \<open>Reading a field of an object literal.\<close>

fun obj_field :: "'v val \<Rightarrow> string \<Rightarrow> 'v val" where
  "obj_field (VObj fs) f = (case map_of fs f of None \<Rightarrow> VUndefined | Some v \<Rightarrow> v)"
| "obj_field v f = VUndefined"

text \<open>Sample imports and props, for evaluating the components on concrete inputs.\<close>

definition sample_documents_imports :: "nat documents_imports" where
  "sample_documents_imports =
     \<lparr>FrontSiteRoutes =
        \<lparr>documentDetailsFor = append ''/documents/'', documentRequestForm = ''/request''\<rparr>,
      documentApi = \<lparr>searchBaseURL = ''/api/documents/''\<rparr>,
      getSearchConfig = (\<lambda>name.
        \<lparr>AGGREGATIONS = [\<lparr>title = ''Languages'', field = ''languages''\<rparr>,
                         \<lparr>title = ''Tags'', field = ''tags''\<rparr>], \<dots> = 0\<rparr>),
      Responsive = \<lparr>onlyMobile = [(''maxWidth'', VNum 767)],
                    onlyComputer = [(''minWidth'', VNum 992)]\<rparr>\<rparr>"

definition sample_eitems_imports :: "nat eitems_imports" where
  "sample_eitems_imports =
     \<lparr>BackOfficeRoutes = \<lparr>eitemDetailsFor = append ''/backoffice/eitems/''\<rparr>,
      eitemApi = \<lparr>url = ''/api/eitems/''\<rparr>,
      eitems_getSearchConfig = (\<lambda>name. \<lparr>AGGREGATIONS = [], \<dots> = 0\<rparr>),
      apiConfig = [(''url'', VStr ''/api''), (''withCredentials'', VBool True)]\<rparr>"

definition sample_props :: component_props where
  "sample_props = \<lparr>location = \<lparr>search = ''?q=dune''\<rparr>\<rparr>"

text \<open>
  The widgets of the search toolkit (and the sort widget built on it) that a page composes.
\<close>

definition search_widgets :: "string list" where
  "search_widgets =
     [''ReactSearchKit'', ''SearchBar'', ''ResultsList'', ''ResultsGrid'', ''ResultsLoader'',
      ''EmptyResults'', ''Error'', ''Pagination'', ''Count'', ''Aggregator'', ''ResultsSort'']"

text \<open>The toolkit widgets of a tree, in document order.\<close>

definition widgets :: "'v node \<Rightarrow> string list" where
  "widgets n =
     concat (map (\<lambda>m. case tag_of m of
                         None \<Rightarrow> []
                       | Some t \<Rightarrow> if t \<in> set search_widgets then [t] else [])
       (subnodes n))"

text \<open>The render callbacks a tree hands to the toolkit widgets: widget and callback.\<close>

definition render_callbacks :: "'v node \<Rightarrow> (string \<times> 'v val) list" where
  "render_callbacks n =
     concat (map (\<lambda>m. case (tag_of m, map_of (props_of m) ''renderElement'') of
                         (Some t, Some v) \<Rightarrow> if t \<in> set search_widgets then [(t, v)] else []
                       | _ \<Rightarrow> [])
       (subnodes n))"

text \<open>
  An accordion panel is open when its \<open>Accordion.Content\<close> is rendered with \<open>active\<close>
  true.
\<close>

definition is_open :: "'v node \<Rightarrow> bool" where
  "is_open panel =
     (VBool True \<in> set (map (\<lambda>n. get_prop n ''active'') (elements ''Accordion.Content'' panel)))"

definition sample_results :: "(nat, nat) hit_scheme list" where
  "sample_results =
     [\<lparr>metadata = \<lparr>pid = ''17'', \<dots> = 0\<rparr>, \<dots> = 0\<rparr>,
      \<lparr>metadata = \<lparr>pid = ''42'', \<dots> = 1\<rparr>, \<dots> = 1\<rparr>]"

section \<open>Computing with element trees and states\<close>

lemma concat_concat_map:
  "concat (concat (map f xs)) = concat (map (\<lambda>x. concat (f x)) xs)"
  by (induction xs) simp_all

lemma elements_Element:
  "elements t (Element t' ps cs) =
     (if t' = t then [Element t' ps cs] else []) @ concat (map (elements t) cs)"
  by (simp add: elements_def [abs_def] filter_concat comp_def)

lemma elements_Nodes: "elements t (Nodes ns) = concat (map (elements t) ns)"
  by (simp add: elements_def [abs_def] filter_concat comp_def)

lemma elements_leaf:
  "elements t Null = []" "elements t (Text x) = []" "elements t (Expr v) = []"
  by (simp_all add: elements_def)

lemma all_props_Element:
  "all_props (Element t ps cs) = map snd ps @ concat (map all_props cs)"
  by (simp add: all_props_def [abs_def] map_concat comp_def concat_concat_map)

lemma all_props_Nodes: "all_props (Nodes ns) = concat (map all_props ns)"
  by (simp add: all_props_def [abs_def] map_concat comp_def concat_concat_map)

lemma all_props_leaf:
  "all_props Null = []" "all_props (Text x) = []" "all_props (Expr v) = []"
  by (simp_all add: all_props_def)

lemmas elements_simps = elements_Element elements_Nodes elements_leaf

lemmas all_props_simps = all_props_Element all_props_Nodes all_props_leaf

lemma this_state_setState:
  "this_state (setState s [(f, v)]) g = (if g = f then v else this_state s g)"
  by (simp add: setState_def this_state_def update_conv')

lemma keys_setState:
  "f \<in> set (map fst s) \<Longrightarrow> map fst (setState s [(f, v)]) = map fst s"
  by (simp add: setState_def update_keys)

lemma elements_renderAggregations:
  "t \<notin> {''div'', ''Responsive'', ''Aggregator''} \<Longrightarrow> elements t (renderAggregations env) = []"
  by (auto simp add: renderAggregations_def elements_simps Let_def comp_def split_def)

lemma elements_renderHeader:
  "t \<notin> {''Grid'', ''Grid.Column'', ''Button.Group'', ''Button'', ''Icon'', ''Count'',
         ''Pagination'', ''ResultsSort''} \<Longrightarrow>
   elements t (DocumentsSearch_renderHeader env s) = []"
  by (auto simp add: DocumentsSearch_renderHeader_def renderResultsLayoutOptions_def
      elements_simps)

lemma elements_renderFooter:
  "t \<notin> {''Grid'', ''Grid.Column'', ''Pagination''} \<Longrightarrow>
   elements t DocumentsSearch_renderFooter = []"
  by (auto simp add: DocumentsSearch_renderFooter_def elements_simps)

lemma ResultsGrid_in_render:
  "elements ''ResultsGrid'' (DocumentsSearch_render env props s) =
     (if truthy (this_state s ''isLayoutGrid'')
      then [Element ''ResultsGrid'' [(''renderElement'', VRenderHits renderResultsGrid)] []]
      else [])"
  by (simp add: DocumentsSearch_render_def elements_simps elements_renderAggregations
      elements_renderHeader elements_renderFooter Let_def)

lemma ResultsList_in_render:
  "elements ''ResultsList'' (DocumentsSearch_render env props s) =
     (if truthy (this_state s ''isLayoutGrid'')
      then []
      else [Element ''ResultsList''
              [(''renderElement'', VRenderHits (DocumentsSearch_renderResultsList env))] []])"
  by (simp add: DocumentsSearch_render_def elements_simps elements_renderAggregations
      elements_renderHeader elements_renderFooter Let_def)

lemma Buttons_in_render:
  "elements ''Button'' (DocumentsSearch_render env props s) =
   elements ''Button'' (renderResultsLayoutOptions s)"
  by (simp add: DocumentsSearch_render_def elements_simps elements_renderAggregations
      elements_renderFooter DocumentsSearch_renderHeader_def Let_def)

lemma layout_buttons_onClick:
  "map (\<lambda>b. get_prop b ''onClick'') (elements ''Button'' (renderResultsLayoutOptions s)) =
   [VStateHandler toggleLayout, VStateHandler toggleLayout]"
  by (simp add: renderResultsLayoutOptions_def elements_simps get_prop_def)

lemma val_truthy_val_of: "val_truthy (val_of v) = truthy v"
  by (cases v) simp_all

lemma layout_buttons_clicks:
  "clicks (renderResultsLayoutOptions s) s' =
     (if truthy (this_state s ''isLayoutGrid'') then [None, Some (toggleLayout s')]
      else [Some (toggleLayout s'), None])"
  by (simp add: clicks_def click_def renderResultsLayoutOptions_def elements_simps
      get_prop_def val_truthy_val_of js_not_def)

lemma clicks_render:
  "clicks (DocumentsSearch_render (env :: 'v documents_imports) props s) s' =
   clicks (renderResultsLayoutOptions s :: 'v node) s'"
  by (simp add: clicks_def Buttons_in_render)

lemma toggleLayout_isLayoutGrid:
  "this_state (toggleLayout s) ''isLayoutGrid'' = js_not (this_state s ''isLayoutGrid'')"
  by (simp add: toggleLayout_def this_state_setState)

lemma reachable_shape:
  "reachable s \<Longrightarrow> \<exists>a g. s = [(''activeIndex'', JNum a), (''isLayoutGrid'', JBool g)]"
proof (induction rule: reachable.induct)
  case init
  show ?case by (auto simp add: DocumentsSearch_state_def)
next
  case (layout s)
  then obtain a g where "s = [(''activeIndex'', JNum a), (''isLayoutGrid'', JBool g)]"
    by blast
  then show ?case
    by (auto simp add: toggleLayout_def setState_def this_state_def js_not_def)
next
  case (accordion s e titleProps)
  then obtain a g where "s = [(''activeIndex'', JNum a), (''isLayoutGrid'', JBool g)]"
    by blast
  then show ?case
    by (auto simp add: toggleAccordion_def setState_def this_state_def Let_def)
qed

lemma toggleAccordion_index_only:
  "toggleAccordion s e titleProps = toggleAccordion s () \<lparr>index = index titleProps\<rparr>"
  by (simp add: toggleAccordion_def)

lemma widgets_Element:
  "widgets (Element t ps cs) =
     (if t \<in> set search_widgets then [t] else []) @ concat (map widgets cs)"
  by (simp add: widgets_def [abs_def] map_concat comp_def concat_concat_map)

lemma widgets_Nodes: "widgets (Nodes ns) = concat (map widgets ns)"
  by (simp add: widgets_def [abs_def] map_concat comp_def concat_concat_map)

lemma widgets_leaf:
  "widgets Null = []" "widgets (Text x) = []" "widgets (Expr v) = []"
  by (simp_all add: widgets_def)

lemmas widgets_simps = widgets_Element widgets_Nodes widgets_leaf

lemma render_callbacks_Element:
  "render_callbacks (Element t ps cs) =
     (case map_of ps ''renderElement'' of
        None \<Rightarrow> []
      | Some v \<Rightarrow> if t \<in> set search_widgets then [(t, v)] else [])
     @ concat (map render_callbacks cs)"
  by (simp add: render_callbacks_def [abs_def] map_concat comp_def concat_concat_map
      split: option.splits)

lemma render_callbacks_Nodes: "render_callbacks (Nodes ns) = concat (map render_callbacks ns)"
  by (simp add: render_callbacks_def [abs_def] map_concat comp_def concat_concat_map)

lemma render_callbacks_leaf:
  "render_callbacks Null = []" "render_callbacks (Text x) = []" "render_callbacks (Expr v) = []"
  by (simp_all add: render_callbacks_def)

lemmas render_callbacks_simps =
  render_callbacks_Element render_callbacks_Nodes render_callbacks_leaf

lemma is_widget:
  "''ReactSearchKit'' \<in> set search_widgets" "''SearchBar'' \<in> set search_widgets"
  "''ResultsList'' \<in> set search_widgets" "''ResultsGrid'' \<in> set search_widgets"
  "''ResultsLoader'' \<in> set search_widgets" "''EmptyResults'' \<in> set search_widgets"
  "''Error'' \<in> set search_widgets" "''Pagination'' \<in> set search_widgets"
  "''Count'' \<in> set search_widgets" "''Aggregator'' \<in> set search_widgets"
  "''ResultsSort'' \<in> set search_widgets"
  by (simp_all add: search_widgets_def)

lemma not_widget:
  "''div'' \<notin> set search_widgets" "''Responsive'' \<notin> set search_widgets"
  "''Grid'' \<notin> set search_widgets" "''Grid.Column'' \<notin> set search_widgets"
  "''Container'' \<notin> set search_widgets" "''Button.Group'' \<notin> set search_widgets"
  "''Button'' \<notin> set search_widgets" "''Icon'' \<notin> set search_widgets"
  "''Message'' \<notin> set search_widgets" "''Message.Content'' \<notin> set search_widgets"
  "''Message.Header'' \<notin> set search_widgets" "''Link'' \<notin> set search_widgets"
  by (simp_all add: search_widgets_def)

lemma widgets_EItems:
  "widgets (EItemsSearch_render env) =
     [''ReactSearchKit'', ''SearchBar'', ''ResultsLoader'', ''EmptyResults'', ''Error'',
      ''Count'', ''Pagination'', ''ResultsSort'', ''ResultsList'', ''Pagination'']"
  by (simp add: EItemsSearch_render_def EItemsSearch_renderHeader_def
      EItemsSearch_renderFooter_def widgets_simps is_widget not_widget)

lemma widgets_renderAggregations:
  "widgets (renderAggregations env) =
     replicate (2 * length (AGGREGATIONS (DocumentsSearch_searchConfig env))) ''Aggregator''"
  by (simp add: renderAggregations_def widgets_simps is_widget not_widget Let_def comp_def
      split_def map_replicate_const replicate_add [symmetric])

lemma widgets_Documents:
  "widgets (DocumentsSearch_render env props s) =
     [''ReactSearchKit'', ''SearchBar'']
     @ replicate (2 * length (AGGREGATIONS (DocumentsSearch_searchConfig env))) ''Aggregator''
     @ [''ResultsLoader'', ''EmptyResults'', ''Error'', ''Count'', ''Pagination'',
        ''ResultsSort'',
        if truthy (this_state s ''isLayoutGrid'') then ''ResultsGrid'' else ''ResultsList'',
        ''Pagination'']"
  by (simp add: DocumentsSearch_render_def DocumentsSearch_renderHeader_def
      DocumentsSearch_renderFooter_def renderResultsLayoutOptions_def widgets_simps
      widgets_renderAggregations Let_def is_widget not_widget)

lemma render_callbacks_EItems:
  "render_callbacks (EItemsSearch_render env) =
     [(''SearchBar'', VRenderSearchBar EItemsSearch_renderSearchBar),
      (''EmptyResults'', VRenderEmpty (EItemsSearch_renderEmptyResults env)),
      (''Error'', VRenderError EItemsSearch_renderError),
      (''Count'', VRenderCount EItemsSearch_renderCount),
      (''ResultsList'', VRenderResults (EItemsSearch_renderResultsList env))]"
  by (simp add: EItemsSearch_render_def EItemsSearch_renderHeader_def
      EItemsSearch_renderFooter_def render_callbacks_simps is_widget not_widget)

lemma render_callbacks_renderAggregations:
  "render_callbacks (renderAggregations env) =
     replicate (length (AGGREGATIONS (DocumentsSearch_searchConfig env)))
       (''Aggregator'', VRenderAggregations renderAccordionAggregations)"
  by (simp add: renderAggregations_def render_callbacks_simps Let_def comp_def
      split_def map_replicate_const is_widget not_widget split: option.splits)

lemma render_callbacks_Documents:
  "render_callbacks (DocumentsSearch_render env props s) =
     [(''SearchBar'', VRenderSearchBar DocumentsSearch_renderSearchBar)]
     @ replicate (length (AGGREGATIONS (DocumentsSearch_searchConfig env)))
         (''Aggregator'', VRenderAggregations renderAccordionAggregations)
     @ [(''EmptyResults'', VRenderEmpty DocumentsSearch_renderEmptyResults),
        (''Error'', VRenderError DocumentsSearch_renderError),
        (''Count'', VRenderCount DocumentsSearch_renderCount),
        if truthy (this_state s ''isLayoutGrid'')
        then (''ResultsGrid'', VRenderHits renderResultsGrid)
        else (''ResultsList'', VRenderHits (DocumentsSearch_renderResultsList env))]"
  by (simp add: DocumentsSearch_render_def DocumentsSearch_renderHeader_def
      DocumentsSearch_renderFooter_def renderResultsLayoutOptions_def render_callbacks_simps
      render_callbacks_renderAggregations Let_def is_widget not_widget)

section \<open>The layout toggle of DocumentsSearch\<close>

text \<open>
  Claim C1, as stated: a click on either layout button flips \<open>isLayoutGrid\<close>.  This fails:
  the button of the current layout is rendered disabled, and a click on a disabled button
  does not reach \<open>toggleLayout\<close>.  In the initial state (grid layout) a click on the grid
  button changes nothing; only the click on the list button flips the layout.
\<close>

theorem click_on_current_layout_button_does_nothing:
  "clicks (DocumentsSearch_render sample_documents_imports sample_props DocumentsSearch_state)
     DocumentsSearch_state =
     [None, Some (toggleLayout DocumentsSearch_state)]
   \<and> clicks (DocumentsSearch_render sample_documents_imports sample_props DocumentsSearch_state)
       DocumentsSearch_state \<noteq>
     [Some (toggleLayout DocumentsSearch_state), Some (toggleLayout DocumentsSearch_state)]"
  by (simp add: clicks_render layout_buttons_clicks DocumentsSearch_state_def this_state_def)

text \<open>
  Claim C1, amended.  In \<open>DocumentsSearch\<close> the layout option decides how the results are
  rendered.  In a state whose \<open>isLayoutGrid\<close> is true (truthy) the render tree holds exactly
  one \<open>ResultsGrid\<close>, with \<open>renderResultsGrid\<close> as its \<open>renderElement\<close>, and no
  \<open>ResultsList\<close>; in a state whose \<open>isLayoutGrid\<close> is false it holds exactly one
  \<open>ResultsList\<close>, with \<open>renderResultsList\<close>, and no \<open>ResultsGrid\<close>.  The render tree has
  two buttons and the \<open>onClick\<close> of each is \<open>toggleLayout\<close>, which leaves \<open>isLayoutGrid\<close>
  at the negation of its value.  The button of the current layout is disabled: a click on
  it does nothing, and a click on the other button runs \<open>toggleLayout\<close> and so flips
  \<open>isLayoutGrid\<close>.
\<close>

theorem layout_toggle_switches_rendering:
  "elements ''ResultsGrid'' (DocumentsSearch_render env props s) =
     (if truthy (this_state s ''isLayoutGrid'')
      then [Element ''ResultsGrid'' [(''renderElement'', VRenderHits renderResultsGrid)] []]
      else [])
   \<and> elements ''ResultsList'' (DocumentsSearch_render env props s) =
     (if truthy (this_state s ''isLayoutGrid'')
      then []
      else [Element ''ResultsList''
              [(''renderElement'', VRenderHits (DocumentsSearch_renderResultsList env))] []])
   \<and> map (\<lambda>b. get_prop b ''onClick'')
        (elements ''Button'' (DocumentsSearch_render env props s)) =
      [VStateHandler toggleLayout, VStateHandler toggleLayout]
   \<and> clicks (DocumentsSearch_render env props s) s =
      (if truthy (this_state s ''isLayoutGrid'') then [None, Some (toggleLayout s)]
       else [Some (toggleLayout s), None])
   \<and> this_state (toggleLayout s) ''isLayoutGrid'' = JBool (\<not> truthy (this_state s ''isLayoutGrid''))"
proof -
  have "map (\<lambda>b. get_prop b ''onClick'')
          (elements ''Button'' (DocumentsSearch_render env props s)) =
        [VStateHandler toggleLayout, VStateHandler toggleLayout]"
    by (simp only: Buttons_in_render layout_buttons_onClick)
  moreover have "clicks (DocumentsSearch_render env props s) s =
      (if truthy (this_state s ''isLayoutGrid'') then [None, Some (toggleLayout s)]
       else [Some (toggleLayout s), None])"
    by (simp only: clicks_render layout_buttons_clicks)
  moreover have "this_state (toggleLayout s) ''isLayoutGrid'' =
      JBool (\<not> truthy (this_state s ''isLayoutGrid''))"
    by (simp add: toggleLayout_isLayoutGrid js_not_def)
  ultimately show ?thesis
    using ResultsGrid_in_render [of env props s] ResultsList_in_render [of env props s]
    by blast
qed

theorem layout_toggle_switches_rendering_witness:
  "elements ''ResultsGrid''
     (DocumentsSearch_render sample_documents_imports sample_props DocumentsSearch_state) =
     [Element ''ResultsGrid'' [(''renderElement'', VRenderHits renderResultsGrid)] []]
   \<and> elements ''ResultsList''
     (DocumentsSearch_render sample_documents_imports sample_props
        (toggleLayout DocumentsSearch_state)) =
     [Element ''ResultsList''
        [(''renderElement'',
          VRenderHits (DocumentsSearch_renderResultsList sample_documents_imports))] []]
   \<and> clicks
       (DocumentsSearch_render sample_documents_imports sample_props
          (toggleLayout DocumentsSearch_state))
       (toggleLayout DocumentsSearch_state) =
     [Some (toggleLayout (toggleLayout DocumentsSearch_state)), None]"
proof -
  note t0 = layout_toggle_switches_rendering
              [of sample_documents_imports sample_props DocumentsSearch_state]
  note t1 = layout_toggle_switches_rendering
              [of sample_documents_imports sample_props "toggleLayout DocumentsSearch_state"]
  have g: "truthy (this_state DocumentsSearch_state ''isLayoutGrid'')"
    by (simp add: DocumentsSearch_state_def this_state_def)
  have "this_state (toggleLayout DocumentsSearch_state) ''isLayoutGrid'' =
        JBool (\<not> truthy (this_state DocumentsSearch_state ''isLayoutGrid''))"
    using t0 by blast
  with g have l: "\<not> truthy (this_state (toggleLayout DocumentsSearch_state) ''isLayoutGrid'')"
    by simp
  have 1: "elements ''ResultsGrid''
     (DocumentsSearch_render sample_documents_imports sample_props DocumentsSearch_state) =
     [Element ''ResultsGrid'' [(''renderElement'', VRenderHits renderResultsGrid)] []]"
    using t0 [THEN conjunct1] g by (simp only: if_True)
  have 2: "elements ''ResultsList''
     (DocumentsSearch_render sample_documents_imports sample_props
        (toggleLayout DocumentsSearch_state)) =
     [Element ''ResultsList''
        [(''renderElement'',
          VRenderHits (DocumentsSearch_renderResultsList sample_documents_imports))] []]"
    using t1 [THEN conjunct2, THEN conjunct1] l by (simp only: if_False)
  have 3: "clicks
       (DocumentsSearch_render sample_documents_imports sample_props
          (toggleLayout DocumentsSearch_state))
       (toggleLayout DocumentsSearch_state) =
     [Some (toggleLayout (toggleLayout DocumentsSearch_state)), None]"
    using t1 [THEN conjunct2, THEN conjunct2, THEN conjunct2, THEN conjunct1] l
    by (simp only: if_False)
  from 1 2 3 show ?thesis
    by blast
qed

section \<open>Empty results\<close>

lemma renderEmptyResults_show_query:
  "Expr (VStr q) \<in> set (subnodes (DocumentsSearch_renderEmptyResults q r))"
  "Expr (VStr q) \<in> set (subnodes (EItemsSearch_renderEmptyResults env q r))"
  by (simp_all add: DocumentsSearch_renderEmptyResults_def EItemsSearch_renderEmptyResults_def)

lemma EItemsSearch_renderEmptyResults_reset:
  "map (\<lambda>n. call_thunk (get_prop n ''clickHandler''))
     (elements ''ClearButton'' (EItemsSearch_renderEmptyResults env q r)) = [Some [Call r]]"
  by (simp add: EItemsSearch_renderEmptyResults_def elements_simps get_prop_def)

lemma DocumentsSearch_renderEmptyResults_no_handler:
  "filter is_handler (all_props (DocumentsSearch_renderEmptyResults q r)) = []"
  by (simp add: DocumentsSearch_renderEmptyResults_def all_props_simps)

text \<open>
  Claim C2.  The empty-results rendering of each page shows the query string and wires
  \<open>resetQuery\<close> to a reset control.  Both renderings include the query string
  (\<open>renderEmptyResults_show_query\<close>) and \<open>EItemsSearch\<close> wires \<open>resetQuery\<close> to its
  \<open>ClearButton\<close> (\<open>EItemsSearch_renderEmptyResults_reset\<close>), but
  \<open>DocumentsSearch.renderEmptyResults\<close> never uses its \<open>resetQuery\<close> argument.  Evaluated
  at the query string \<open>dune\<close>: the rendering of \<open>DocumentsSearch\<close> holds no event handler
  and is the same for two different \<open>resetQuery\<close> values, while the rendering of
  \<open>EItemsSearch\<close> holds the handler that calls \<open>resetQuery\<close>.
\<close>

theorem DocumentsSearch_renderEmptyResults_drops_resetQuery:
  "filter is_handler (all_props (DocumentsSearch_renderEmptyResults ''dune'' (7::nat))) = []
   \<and> DocumentsSearch_renderEmptyResults ''dune'' (7::nat) =
      DocumentsSearch_renderEmptyResults ''dune'' 8
   \<and> map call_thunk (filter is_handler
        (all_props (EItemsSearch_renderEmptyResults sample_eitems_imports ''dune'' (7::nat)))) =
      [Some [Call 7], Some [OpenRecordEditor ''/api/eitems/'']]"
  by (simp add: DocumentsSearch_renderEmptyResults_def EItemsSearch_renderEmptyResults_def
      all_props_simps sample_eitems_imports_def openRecordEditor_def)

section \<open>The structure of the two pages\<close>

text \<open>
  Claim C3, as stated: the two pages are structurally identical, and \<open>EItemsSearch\<close>, like
  \<open>DocumentsSearch\<close>, provides a grid rendering and aggregation widgets.  This fails: the
  render tree of \<open>EItemsSearch\<close> holds neither a \<open>ResultsGrid\<close> nor an \<open>Aggregator\<close>, and
  its widgets differ from those of \<open>DocumentsSearch\<close>.
\<close>

theorem EItemsSearch_has_no_grid_no_aggregations:
  "''ResultsGrid'' \<notin> set (widgets (EItemsSearch_render sample_eitems_imports))
   \<and> ''Aggregator'' \<notin> set (widgets (EItemsSearch_render sample_eitems_imports))
   \<and> widgets (EItemsSearch_render sample_eitems_imports) \<noteq>
      widgets (DocumentsSearch_render sample_documents_imports sample_props
                 DocumentsSearch_state)"
  by (simp add: widgets_EItems widgets_Documents DocumentsSearch_searchConfig_def
      sample_documents_imports_def DocumentsSearch_state_def this_state_def)

text \<open>
  Claim C3, amended.  Both pages have the same skeleton: a \<open>ReactSearchKit\<close> provider
  configured with an API endpoint, holding \<open>SearchBar\<close>, \<open>EmptyResults\<close>, \<open>Error\<close>,
  \<open>Count\<close>, \<open>Pagination\<close> (header and footer), \<open>ResultsSort\<close> and one results widget, with
  render callbacks for search bar, empty state, error state, count and results.  Only
  \<open>DocumentsSearch\<close> provides a grid rendering (\<open>ResultsGrid\<close> in place of \<open>ResultsList\<close>
  when \<open>isLayoutGrid\<close> is true) and aggregation widgets (two \<open>Aggregator\<close>s for each
  configured aggregation, those of the accordion with \<open>renderAccordionAggregations\<close>);
  \<open>EItemsSearch\<close> always renders \<open>ResultsList\<close> and has neither.
\<close>

theorem pages_share_skeleton:
  "widgets (EItemsSearch_render env') =
     [''ReactSearchKit'', ''SearchBar'', ''ResultsLoader'', ''EmptyResults'', ''Error'',
      ''Count'', ''Pagination'', ''ResultsSort'', ''ResultsList'', ''Pagination'']
   \<and> widgets (DocumentsSearch_render env props s) =
     [''ReactSearchKit'', ''SearchBar'']
     @ replicate (2 * length (AGGREGATIONS (DocumentsSearch_searchConfig env))) ''Aggregator''
     @ [''ResultsLoader'', ''EmptyResults'', ''Error'', ''Count'', ''Pagination'',
        ''ResultsSort'',
        if truthy (this_state s ''isLayoutGrid'') then ''ResultsGrid'' else ''ResultsList'',
        ''Pagination'']
   \<and> render_callbacks (EItemsSearch_render env') =
     [(''SearchBar'', VRenderSearchBar EItemsSearch_renderSearchBar),
      (''EmptyResults'', VRenderEmpty (EItemsSearch_renderEmptyResults env')),
      (''Error'', VRenderError EItemsSearch_renderError),
      (''Count'', VRenderCount EItemsSearch_renderCount),
      (''ResultsList'', VRenderResults (EItemsSearch_renderResultsList env'))]
   \<and> render_callbacks (DocumentsSearch_render env props s) =
     [(''SearchBar'', VRenderSearchBar DocumentsSearch_renderSearchBar)]
     @ replicate (length (AGGREGATIONS (DocumentsSearch_searchConfig env)))
         (''Aggregator'', VRenderAggregations renderAccordionAggregations)
     @ [(''EmptyResults'', VRenderEmpty DocumentsSearch_renderEmptyResults),
        (''Error'', VRenderError DocumentsSearch_renderError),
        (''Count'', VRenderCount DocumentsSearch_renderCount),
        if truthy (this_state s ''isLayoutGrid'')
        then (''ResultsGrid'', VRenderHits renderResultsGrid)
        else (''ResultsList'', VRenderHits (DocumentsSearch_renderResultsList env))]
   \<and> get_prop (DocumentsSearch_render env props s) ''searchApi'' = DocumentsSearch_searchApi env
   \<and> get_prop (EItemsSearch_render env') ''searchConfig'' =
     VObj (AList.update ''url'' (VStr (url (eitemApi env'))) (apiConfig env'))"
proof -
  have "get_prop (DocumentsSearch_render env props s) ''searchApi'' =
          DocumentsSearch_searchApi env"
    and "get_prop (EItemsSearch_render env') ''searchConfig'' =
          VObj (AList.update ''url'' (VStr (url (eitemApi env'))) (apiConfig env'))"
    by (simp_all add: DocumentsSearch_render_def EItemsSearch_render_def Let_def get_prop_def)
  then show ?thesis
    by (simp only: widgets_EItems widgets_Documents render_callbacks_EItems
        render_callbacks_Documents simp_thms)
qed

section \<open>Error display\<close>

lemma Error_in_Documents:
  "map (\<lambda>n. get_prop n ''renderElement'') (elements ''Error'' (DocumentsSearch_render env props s)) =
   [VRenderError DocumentsSearch_renderError]"
  by (simp add: DocumentsSearch_render_def elements_simps elements_renderAggregations
      elements_renderHeader elements_renderFooter Let_def get_prop_def)

lemma Error_in_EItems:
  "map (\<lambda>n. get_prop n ''renderElement'') (elements ''Error'' (EItemsSearch_render env)) =
   [VRenderError EItemsSearch_renderError]"
  by (simp add: EItemsSearch_render_def elements_simps EItemsSearch_renderHeader_def
      EItemsSearch_renderFooter_def get_prop_def)

text \<open>
  Claim C4.  Error handling is display-only.  In both pages the \<open>Error\<close> widget is given
  \<open>renderError\<close>, and for every error object \<open>e\<close> the rendering is the single element
  \<open>IlsError\<close> whose \<open>error\<close> attribute is \<open>e\<close> itself: the same element whatever \<open>e\<close>
  is (no classification), with no children and no event handler (no retry or recovery).
\<close>

theorem error_display_only:
  "map (\<lambda>n. get_prop n ''renderElement'')
     (elements ''Error'' (DocumentsSearch_render env props s)) =
     [VRenderError DocumentsSearch_renderError]
   \<and> map (\<lambda>n. get_prop n ''renderElement'') (elements ''Error'' (EItemsSearch_render env')) =
     [VRenderError EItemsSearch_renderError]
   \<and> subnodes (DocumentsSearch_renderError e) = [Element ''IlsError'' [(''error'', VOpaque e)] []]
   \<and> subnodes (EItemsSearch_renderError e) = [Element ''IlsError'' [(''error'', VOpaque e)] []]
   \<and> get_prop (DocumentsSearch_renderError e) ''error'' = VOpaque e
   \<and> get_prop (EItemsSearch_renderError e) ''error'' = VOpaque e
   \<and> filter is_handler (all_props (DocumentsSearch_renderError e)) = []
   \<and> filter is_handler (all_props (EItemsSearch_renderError e)) = []"
proof -
  have "get_prop (DocumentsSearch_renderError e) ''error'' = VOpaque e"
    and "get_prop (EItemsSearch_renderError e) ''error'' = VOpaque e"
    by (simp_all add: DocumentsSearch_renderError_def EItemsSearch_renderError_def
        get_prop_def)
  then show ?thesis
    by (simp add: Error_in_Documents Error_in_EItems DocumentsSearch_renderError_def
        EItemsSearch_renderError_def all_props_simps)
qed

section \<open>Navigation from a result row\<close>

text \<open>
  Claim C5.  The navigation actions of the result rows go to the router through \<open>goTo\<close>.
  The documents list gives each \<open>DocumentItem\<close> a \<open>rowActionClickHandler\<close> that, called
  with any \<open>pid\<close>, makes the single call \<open>goTo(FrontSiteRoutes.documentDetailsFor(pid))\<close>;
  the eitems list gives \<open>EItemsResultsList\<close> a \<open>viewDetailsClickHandler\<close> that, called
  with any \<open>row\<close>, makes the single call \<open>goTo(BackOfficeRoutes.eitemDetailsFor(row.ID))\<close>.
  These are the only event handlers of the two result lists.
\<close>

theorem row_actions_go_to_details:
  "map (\<lambda>n. call_pid (get_prop n ''rowActionClickHandler'') p)
     (elements ''DocumentItem'' (DocumentsSearch_renderResultsList env results)) =
     replicate (length results) (Some [GoTo (documentDetailsFor (FrontSiteRoutes env) p)])
   \<and> map (\<lambda>h. call_pid h p)
       (filter is_handler (all_props (DocumentsSearch_renderResultsList env results))) =
     replicate (length results) (Some [GoTo (documentDetailsFor (FrontSiteRoutes env) p)])
   \<and> map (\<lambda>n. call_row (get_prop n ''viewDetailsClickHandler'') r)
       (elements ''EItemsResultsList'' (EItemsSearch_renderResultsList env' results')) =
     [Some [GoTo (eitemDetailsFor (BackOfficeRoutes env') (ID r))]]
   \<and> map (\<lambda>h. call_row h r)
       (filter is_handler (all_props (EItemsSearch_renderResultsList env' results'))) =
     [Some [GoTo (eitemDetailsFor (BackOfficeRoutes env') (ID r))]]"
  by (simp add: DocumentsSearch_renderResultsList_def EItemsSearch_renderResultsList_def
      elements_simps all_props_simps get_prop_def goTo_def comp_def map_replicate_const
      filter_concat)

theorem row_actions_go_to_details_witness:
  "map (\<lambda>n. call_pid (get_prop n ''rowActionClickHandler'') ''42'')
     (elements ''DocumentItem''
        (DocumentsSearch_renderResultsList sample_documents_imports sample_results)) =
     [Some [GoTo ''/documents/42''], Some [GoTo ''/documents/42'']]
   \<and> map (\<lambda>h. call_row h \<lparr>ID = ''7'', \<dots> = 0\<rparr>)
       (filter is_handler (all_props (EItemsSearch_renderResultsList sample_eitems_imports 3))) =
     [Some [GoTo ''/backoffice/eitems/7'']]"
  using row_actions_go_to_details
          [of "''42''" sample_documents_imports sample_results "\<lparr>ID = ''7'', \<dots> = 0\<rparr>"
              sample_eitems_imports 3]
  by (simp add: sample_documents_imports_def sample_eitems_imports_def sample_results_def)

section \<open>Search endpoints\<close>

text \<open>
  Claim C6.  Each page configures its \<open>ReactSearchKit\<close> provider with the search endpoint
  of its API descriptor.  \<open>DocumentsSearch\<close> passes as \<open>searchApi\<close> an \<open>InvenioSearchApi\<close>
  constructed with \<open>url: documentApi.searchBaseURL\<close> and \<open>withCredentials: true\<close>, in every
  state and for all props; \<open>EItemsSearch\<close> passes a \<open>searchConfig\<close> object whose \<open>url\<close> is
  \<open>eitemApi.url\<close>, whatever \<open>apiConfig\<close> holds.
\<close>

theorem search_endpoints:
  "tag_of (DocumentsSearch_render env props s) = Some ''ReactSearchKit''
   \<and> get_prop (DocumentsSearch_render env props s) ''searchApi'' =
       VNew ''InvenioSearchApi''
         [VObj [(''url'', VStr (searchBaseURL (documentApi env))),
                (''withCredentials'', VBool True)]]
   \<and> tag_of (EItemsSearch_render env') = Some ''ReactSearchKit''
   \<and> obj_field (get_prop (EItemsSearch_render env') ''searchConfig'') ''url'' =
       VStr (url (eitemApi env'))"
  by (simp add: DocumentsSearch_render_def EItemsSearch_render_def Let_def get_prop_def
      DocumentsSearch_searchApi_def update_conv')

section \<open>The component state\<close>

lemma no_state_writes_EItems:
  "filter writes_state (all_props (EItemsSearch_render env)) = []"
  "filter writes_state (all_props (EItemsSearch_renderSearchBar u q oic es)) = []"
  "filter writes_state (all_props (EItemsSearch_renderResultsList env results)) = []"
  "filter writes_state (all_props (EItemsSearch_renderEmptyResults env q r)) = []"
  "filter writes_state (all_props (EItemsSearch_renderError err)) = []"
  "filter writes_state (all_props (EItemsSearch_renderCount n)) = []"
  by (simp_all add: EItemsSearch_render_def EItemsSearch_renderHeader_def
      EItemsSearch_renderFooter_def EItemsSearch_renderSearchBar_def
      EItemsSearch_renderResultsList_def EItemsSearch_renderEmptyResults_def
      EItemsSearch_renderError_def EItemsSearch_renderCount_def all_props_simps)

lemma toggle_keys:
  assumes "map fst s = [''activeIndex'', ''isLayoutGrid'']"
  shows "map fst (toggleLayout s) = [''activeIndex'', ''isLayoutGrid'']"
    and "map fst (toggleAccordion s e titleProps) = [''activeIndex'', ''isLayoutGrid'']"
  using assms by (simp_all add: toggleLayout_def toggleAccordion_def Let_def keys_setState)

lemma reachable_keys: "reachable s \<Longrightarrow> map fst s = [''activeIndex'', ''isLayoutGrid'']"
  by (induction rule: reachable.induct) (simp_all add: DocumentsSearch_state_def toggle_keys)

text \<open>
  Claim C7.  The state of \<open>DocumentsSearch\<close> consists of the two fields \<open>activeIndex\<close> and
  \<open>isLayoutGrid\<close>: this holds initially and in every reachable state, both transitions
  keep exactly these fields, \<open>toggleLayout\<close> leaves \<open>activeIndex\<close> as it is and
  \<open>toggleAccordion\<close> leaves \<open>isLayoutGrid\<close> as it is.  \<open>EItemsSearch\<close> keeps no state: neither
  its render tree nor the output of any of its render callbacks holds a handler that writes
  component state.
\<close>

theorem state_is_two_toggles:
  assumes "reachable s"
  shows "map fst DocumentsSearch_state = [''activeIndex'', ''isLayoutGrid'']
     \<and> map fst s = [''activeIndex'', ''isLayoutGrid'']
     \<and> map fst (toggleLayout s) = [''activeIndex'', ''isLayoutGrid'']
     \<and> map fst (toggleAccordion s e titleProps) = [''activeIndex'', ''isLayoutGrid'']
     \<and> this_state (toggleLayout s) ''activeIndex'' = this_state s ''activeIndex''
     \<and> this_state (toggleAccordion s e titleProps) ''isLayoutGrid'' =
         this_state s ''isLayoutGrid''
     \<and> filter writes_state (all_props (EItemsSearch_render env)) = []
     \<and> filter writes_state (all_props (EItemsSearch_renderSearchBar u q oic es)) = []
     \<and> filter writes_state (all_props (EItemsSearch_renderResultsList env results)) = []
     \<and> filter writes_state (all_props (EItemsSearch_renderEmptyResults env q r)) = []
     \<and> filter writes_state (all_props (EItemsSearch_renderError err)) = []
     \<and> filter writes_state (all_props (EItemsSearch_renderCount n)) = []"
  using assms
  by (simp add: reachable_keys toggle_keys no_state_writes_EItems)
     (simp add: DocumentsSearch_state_def toggleLayout_def toggleAccordion_def Let_def
      this_state_setState)

theorem state_is_two_toggles_witness:
  "reachable (toggleLayout DocumentsSearch_state)
   \<and> map fst (toggleLayout DocumentsSearch_state) = [''activeIndex'', ''isLayoutGrid'']
   \<and> map fst (toggleAccordion (toggleLayout DocumentsSearch_state) () \<lparr>index = 1\<rparr>) =
       [''activeIndex'', ''isLayoutGrid'']
   \<and> this_state (toggleLayout DocumentsSearch_state) ''activeIndex'' = JNum 0
   \<and> filter writes_state (all_props (EItemsSearch_render sample_eitems_imports)) = []"
proof -
  have r: "reachable (toggleLayout DocumentsSearch_state)"
    by (rule reachable.layout [OF reachable.init])
  note t0 = state_is_two_toggles
             [OF reachable.init, where e = "()" and titleProps = "\<lparr>index = 1\<rparr>"
                and env = sample_eitems_imports and u = 0 and q = "''dune''" and oic = 0
                and es = 0 and results = 0 and r = 0 and err = 0 and n = 0]
  note t1 = state_is_two_toggles
             [OF r, where e = "()" and titleProps = "\<lparr>index = 1\<rparr>"
                and env = sample_eitems_imports and u = 0 and q = "''dune''" and oic = 0
                and es = 0 and results = 0 and r = 0 and err = 0 and n = 0]
  have a: "this_state DocumentsSearch_state ''activeIndex'' = JNum 0"
    by (simp add: DocumentsSearch_state_def this_state_def)
  have 1: "map fst (toggleLayout DocumentsSearch_state) = [''activeIndex'', ''isLayoutGrid'']"
    using t1 by blast
  have 2: "map fst (toggleAccordion (toggleLayout DocumentsSearch_state) () \<lparr>index = 1\<rparr>) =
       [''activeIndex'', ''isLayoutGrid'']"
    using t1 by blast
  have "this_state (toggleLayout DocumentsSearch_state) ''activeIndex'' =
        this_state DocumentsSearch_state ''activeIndex''"
    using t0 by blast
  then have 3: "this_state (toggleLayout DocumentsSearch_state) ''activeIndex'' = JNum 0"
    using a by (rule trans)
  have 4: "filter writes_state (all_props (EItemsSearch_render sample_eitems_imports)) = []"
    using t1 by blast
  from r 1 2 3 4 show ?thesis
    by blast
qed

section \<open>The aggregation accordion\<close>

lemma is_open_panel:
  "is_open (renderAccordionAggregations s t ra ag cp) =
     (ra \<noteq> None \<and> this_state s ''activeIndex'' = JNum (index cp))"
  by (simp add: is_open_def renderAccordionAggregations_def elements_simps get_prop_def Let_def)

lemma at_most_one_open:
  "distinct idxs \<Longrightarrow>
   length (filter (\<lambda>i. is_open (renderAccordionAggregations s t ra ag \<lparr>index = i\<rparr>)) idxs) \<le> 1"
proof (induction idxs)
  case Nil
  show ?case by simp
next
  case (Cons x xs)
  show ?case
  proof (cases "is_open (renderAccordionAggregations s t ra ag \<lparr>index = x\<rparr>)")
    case True
    with Cons.prems
    have "filter (\<lambda>i. is_open (renderAccordionAggregations s t ra ag \<lparr>index = i\<rparr>)) xs = []"
      by (auto simp add: filter_empty_conv is_open_panel)
    with True show ?thesis by simp
  next
    case False
    with Cons show ?thesis by simp
  qed
qed

lemma map_enumerate_fst:
  "map (\<lambda>x. f (fst x)) (enumerate n xs) = map f [n..<n + length xs]"
proof -
  have "map (\<lambda>x. f (fst x)) (enumerate n xs) = map f (map fst (enumerate n xs))"
    by (simp only: map_map comp_def)
  also have "\<dots> = map f [n..<n + length xs]"
    by (simp only: map_fst_enumerate)
  finally show ?thesis .
qed

lemma toggleAccordion_activeIndex:
  "this_state (toggleAccordion s e titleProps) ''activeIndex'' =
     JNum (if this_state s ''activeIndex'' = JNum (index titleProps) then - 1
           else index titleProps)"
  by (simp add: toggleAccordion_def Let_def this_state_setState)

lemma accordion_customProps:
  "map (\<lambda>n. get_prop n ''customProps'') (elements ''Aggregator'' (renderAggregations env)) =
     map (\<lambda>i. VObj [(''index'', VNum (int i))])
       [0..<length (AGGREGATIONS (DocumentsSearch_searchConfig env))]
     @ replicate (length (AGGREGATIONS (DocumentsSearch_searchConfig env))) VUndefined"
  using map_enumerate_fst [of "\<lambda>i. VObj [(''index'', VNum (int i))]" 0
      "AGGREGATIONS (DocumentsSearch_searchConfig env)"]
  by (simp add: renderAggregations_def elements_simps get_prop_def Let_def comp_def
      split_def map_concat map_replicate_const)

text \<open>
  Claim C8.  At most one accordion panel is open at any time.  The panel that the
  \<open>Aggregator\<close> with \<open>customProps.index = i\<close> renders is open exactly when it has results
  and \<open>activeIndex\<close> is \<open>i\<close>; so among panels with pairwise distinct indices at most one is
  open, in any state.  \<open>renderAggregations\<close> hands out the distinct indices \<open>0, 1, ...\<close> to
  the accordion panels.  A click on the title with index \<open>i\<close> sets \<open>activeIndex\<close> to \<open>-1\<close>
  when it was \<open>i\<close> and to \<open>i\<close> otherwise.
\<close>

theorem accordion_at_most_one_open:
  assumes "distinct idxs"
  shows "length (filter (\<lambda>i. is_open (renderAccordionAggregations s t ra ag \<lparr>index = i\<rparr>)) idxs) \<le> 1
     \<and> is_open (renderAccordionAggregations s t ra ag \<lparr>index = i\<rparr>) =
         (ra \<noteq> None \<and> this_state s ''activeIndex'' = JNum i)
     \<and> this_state (toggleAccordion s e \<lparr>index = i\<rparr>) ''activeIndex'' =
         JNum (if this_state s ''activeIndex'' = JNum i then - 1 else i)
     \<and> map (\<lambda>n. get_prop n ''customProps'') (elements ''Aggregator'' (renderAggregations env)) =
         map (\<lambda>i. VObj [(''index'', VNum (int i))])
           [0..<length (AGGREGATIONS (DocumentsSearch_searchConfig env))]
         @ replicate (length (AGGREGATIONS (DocumentsSearch_searchConfig env))) VUndefined"
proof (intro conjI)
  show "length (filter (\<lambda>i. is_open (renderAccordionAggregations s t ra ag \<lparr>index = i\<rparr>)) idxs) \<le> 1"
    using assms by (rule at_most_one_open)
  show "is_open (renderAccordionAggregations s t ra ag \<lparr>index = i\<rparr>) =
         (ra \<noteq> None \<and> this_state s ''activeIndex'' = JNum i)"
    by (simp add: is_open_panel)
  show "this_state (toggleAccordion s e \<lparr>index = i\<rparr>) ''activeIndex'' =
         JNum (if this_state s ''activeIndex'' = JNum i then - 1 else i)"
    by (simp add: toggleAccordion_activeIndex)
  show "map (\<lambda>n. get_prop n ''customProps'') (elements ''Aggregator'' (renderAggregations env)) =
         map (\<lambda>i. VObj [(''index'', VNum (int i))])
           [0..<length (AGGREGATIONS (DocumentsSearch_searchConfig env))]
         @ replicate (length (AGGREGATIONS (DocumentsSearch_searchConfig env))) VUndefined"
    by (rule accordion_customProps)
qed

theorem accordion_at_most_one_open_witness:
  "distinct [0, 1, 2 :: int]
   \<and> length (filter (\<lambda>i. is_open (renderAccordionAggregations DocumentsSearch_state
         ''Languages'' (Some (5 :: nat)) 6 \<lparr>index = i\<rparr>)) [0, 1, 2]) \<le> 1
   \<and> is_open (renderAccordionAggregations DocumentsSearch_state
         ''Languages'' (Some (5 :: nat)) 6 \<lparr>index = 0\<rparr>)
   \<and> this_state (toggleAccordion DocumentsSearch_state () \<lparr>index = 0\<rparr>) ''activeIndex'' =
       JNum (- 1)"
proof -
  have d: "distinct [0, 1, 2 :: int]"
    by simp
  note t = accordion_at_most_one_open
              [OF d, where s = DocumentsSearch_state and t = "''Languages''"
                 and ra = "Some (5 :: nat)" and ag = 6 and i = 0 and e = "()"
                 and env = sample_documents_imports]
  have a: "this_state DocumentsSearch_state ''activeIndex'' = JNum 0"
    by (simp add: DocumentsSearch_state_def this_state_def)
  have 1: "length (filter (\<lambda>i. is_open (renderAccordionAggregations DocumentsSearch_state
         ''Languages'' (Some (5 :: nat)) 6 \<lparr>index = i\<rparr>)) [0, 1, 2]) \<le> 1"
    using t by (rule conjunct1)
  have 2: "is_open (renderAccordionAggregations DocumentsSearch_state
         ''Languages'' (Some (5 :: nat)) 6 \<lparr>index = 0\<rparr>)"
    using t [THEN conjunct2, THEN conjunct1] a by simp
  have 3: "this_state (toggleAccordion DocumentsSearch_state () \<lparr>index = 0\<rparr>) ''activeIndex'' =
       JNum (- 1)"
    using t [THEN conjunct2, THEN conjunct2, THEN conjunct1] a by simp
  from d 1 2 3 show ?thesis
    by blast
qed

section \<open>The layout toggle is an involution\<close>

text \<open>
  Claim C9.  In every reachable state \<open>toggleLayout\<close> negates \<open>isLayoutGrid\<close> and applying
  it twice gives the state back.  \<open>isLayoutGrid\<close> is initially true.  Of the two layout
  buttons, the one with the grid icon is disabled exactly when \<open>isLayoutGrid\<close> is true and
  the one with the list icon exactly when it is false: one and only one is disabled, the
  one of the current layout.
\<close>

theorem toggleLayout_involution:
  assumes "reachable s"
  shows "toggleLayout (toggleLayout s) = s
     \<and> this_state (toggleLayout s) ''isLayoutGrid'' = js_not (this_state s ''isLayoutGrid'')
     \<and> this_state DocumentsSearch_state ''isLayoutGrid'' = JBool True
     \<and> map (\<lambda>b. (map (\<lambda>i. get_prop i ''name'') (elements ''Icon'' b), get_prop b ''disabled''))
         (elements ''Button'' (renderResultsLayoutOptions s :: 'v node)) =
        [([VStr ''grid layout''], VBool (truthy (this_state s ''isLayoutGrid''))),
         ([VStr ''list layout''], VBool (\<not> truthy (this_state s ''isLayoutGrid'')))]"
proof -
  from assms obtain a g where s: "s = [(''activeIndex'', JNum a), (''isLayoutGrid'', JBool g)]"
    using reachable_shape by blast
  have 1: "toggleLayout (toggleLayout s) = s"
    by (simp add: s toggleLayout_def setState_def this_state_def js_not_def)
  have 2: "this_state DocumentsSearch_state ''isLayoutGrid'' = JBool True"
    by (simp add: DocumentsSearch_state_def this_state_def)
  have 3: "this_state s ''isLayoutGrid'' = JBool g"
    by (simp add: s this_state_def)
  have 4: "map (\<lambda>b. (map (\<lambda>i. get_prop i ''name'') (elements ''Icon'' b), get_prop b ''disabled''))
         (elements ''Button'' (renderResultsLayoutOptions s :: 'v node)) =
        [([VStr ''grid layout''], VBool (truthy (this_state s ''isLayoutGrid''))),
         ([VStr ''list layout''], VBool (\<not> truthy (this_state s ''isLayoutGrid'')))]"
    by (simp add: 3 renderResultsLayoutOptions_def elements_simps get_prop_def js_not_def)
  show ?thesis
    using 1 2 4 by (simp add: toggleLayout_isLayoutGrid)
qed

theorem toggleLayout_involution_witness:
  "reachable (toggleLayout DocumentsSearch_state)
   \<and> toggleLayout (toggleLayout (toggleLayout DocumentsSearch_state)) =
       toggleLayout DocumentsSearch_state
   \<and> this_state (toggleLayout DocumentsSearch_state) ''isLayoutGrid'' = JBool False
   \<and> this_state (toggleLayout (toggleLayout DocumentsSearch_state)) ''isLayoutGrid'' =
       JBool True
   \<and> map (\<lambda>b. (map (\<lambda>i. get_prop i ''name'') (elements ''Icon'' b), get_prop b ''disabled''))
        (elements ''Button''
           (renderResultsLayoutOptions (toggleLayout DocumentsSearch_state) :: nat node)) =
       [([VStr ''grid layout''], VBool False), ([VStr ''list layout''], VBool True)]"
proof -
  have r: "reachable (toggleLayout DocumentsSearch_state)"
    by (rule reachable.layout [OF reachable.init])
  note t0 = toggleLayout_involution [OF reachable.init, where 'v = nat]
  note t1 = toggleLayout_involution [OF r, where 'v = nat]
  have 1: "this_state (toggleLayout DocumentsSearch_state) ''isLayoutGrid'' = JBool False"
    using t0 [THEN conjunct2, THEN conjunct1] t0 [THEN conjunct2, THEN conjunct2, THEN conjunct1]
    by (simp add: js_not_def)
  have 2: "toggleLayout (toggleLayout (toggleLayout DocumentsSearch_state)) =
       toggleLayout DocumentsSearch_state"
    using t1 by (rule conjunct1)
  have 3: "this_state (toggleLayout (toggleLayout DocumentsSearch_state)) ''isLayoutGrid'' =
       JBool True"
    using t1 [THEN conjunct2, THEN conjunct1] 1 by (simp add: js_not_def)
  have 4: "map (\<lambda>b. (map (\<lambda>i. get_prop i ''name'') (elements ''Icon'' b), get_prop b ''disabled''))
        (elements ''Button''
           (renderResultsLayoutOptions (toggleLayout DocumentsSearch_state) :: nat node)) =
       [([VStr ''grid layout''], VBool False), ([VStr ''list layout''], VBool True)]"
    using t1 [THEN conjunct2, THEN conjunct2, THEN conjunct2] 1
    by simp
  from r 1 2 3 4 show ?thesis
    by blast
qed

section \<open>Rendering the results of DocumentsSearch\<close>

text \<open>
  Claim C10.  For the empty results array \<open>renderResultsList\<close> returns \<open>null\<close>, and only
  for it, whereas \<open>renderResultsGrid\<close> returns a card group with no card.  For every
  results array the list holds one \<open>DocumentItem\<close> and the grid one \<open>BookCard\<close> for each
  result, in the order of the results, with the result's \<open>metadata.pid\<close> as key; beside
  the enclosing \<open>div\<close> or \<open>Card.Group\<close> they hold no other element.
\<close>

theorem results_list_and_grid:
  "DocumentsSearch_renderResultsList env [] = Null
   \<and> renderResultsGrid [] =
       Element ''Card.Group''
         [(''doubling'', VBool True), (''stackable'', VBool True), (''itemsPerRow'', VNum 4)]
         [Nodes []]
   \<and> (DocumentsSearch_renderResultsList env results = Null) = (results = [])
   \<and> map (\<lambda>n. get_prop n ''key'')
        (elements ''DocumentItem'' (DocumentsSearch_renderResultsList env results)) =
      map (\<lambda>book. VStr (pid (metadata book))) results
   \<and> map (\<lambda>n. get_prop n ''key'') (elements ''BookCard'' (renderResultsGrid results)) =
      map (\<lambda>book. VStr (pid (metadata book))) results
   \<and> length (filter (\<lambda>n. tag_of n \<noteq> None) (subnodes (DocumentsSearch_renderResultsList env results))) =
      (if results = [] then 0 else 1 + length results)
   \<and> length (filter (\<lambda>n. tag_of n \<noteq> None) (subnodes (renderResultsGrid results))) =
      1 + length results"
  by (simp add: DocumentsSearch_renderResultsList_def renderResultsGrid_def elements_simps
      get_prop_def comp_def Let_def filter_concat)

theorem results_list_and_grid_witness:
  "map (\<lambda>n. get_prop n ''key'')
     (elements ''DocumentItem''
        (DocumentsSearch_renderResultsList sample_documents_imports sample_results)) =
     [VStr ''17'', VStr ''42'']
   \<and> map (\<lambda>n. get_prop n ''key'') (elements ''BookCard'' (renderResultsGrid sample_results)) =
     [VStr ''17'', VStr ''42'']"
proof -
  note t = results_list_and_grid [of sample_documents_imports sample_results]
  have k: "map (\<lambda>book. VStr (pid (metadata book))) sample_results = [VStr ''17'', VStr ''42'']"
    by (simp add: sample_results_def)
  have 1: "map (\<lambda>n. get_prop n ''key'')
     (elements ''DocumentItem''
        (DocumentsSearch_renderResultsList sample_documents_imports sample_results)) =
     map (\<lambda>book. VStr (pid (metadata book))) sample_results"
    using t by blast
  have 2: "map (\<lambda>n. get_prop n ''key'')
     (elements ''BookCard'' (renderResultsGrid sample_results)) =
     map (\<lambda>book. VStr (pid (metadata book))) sample_results"
    using t by blast
  from trans [OF 1 k] trans [OF 2 k] show ?thesis
    by (rule conjI)
qed

end
